theory Spec2Isabelle
  imports Complex_Main
begin

section \<open>The retry wrapper of \<open>src/lib/index.ts\<close>\<close>

text \<open>
  The module exports one function: it wraps an operation \<open>fn\<close> and returns an async
  function that calls \<open>fn\<close> in a bounded loop, classifying each failure by the name of
  the error and waiting an exponentially growing delay between attempts.

  Conventions of the embedding.
  \<^item> JavaScript numbers that hold durations (\<open>intervals\<close>, \<open>backoff\<close>, \<open>maxInterval\<close>,
    the computed delay, the result of \<open>Math.random()\<close>) are modelled as \<open>real\<close>; the
    rounding of IEEE doubles, infinities and NaN are outside the model.
  \<^item> \<open>maxAttempts\<close> is an \<open>int\<close> (the source compares the loop counter with it; it
    may be zero or negative), the loop counter \<open>attempt\<close> a \<open>nat\<close>.
  \<^item> An optional field or parameter (\<open>x?: T\<close>) is a \<open>T option\<close>, \<open>None\<close> being
    \<open>undefined\<close>.
  \<^item> Every invocation of the operation settles: it returns a value or throws (a rejected
    promise is a throw at the \<open>await\<close>). The operation may be stateful; its state is
    threaded explicitly.
  \<^item> The effects of the wrapper (invocations of \<open>fn\<close>, timed waits, draws of
    \<open>Math.random()\<close>) are recorded in a \<open>world\<close> that is passed through the loop.
\<close>

subsection \<open>Data\<close>

text \<open>\<open>RetryOptions\<close> (lines 1-8): every field is optional.\<close>

record RetryOptions =
  errors :: "string list option"
  intervals :: "real option"
  backoff :: "real option"
  maxAttempts :: "int option"
  maxInterval :: "real option"
  jitter :: "bool option"

text \<open>An instance of \<open>Error\<close> (or of a subclass): its \<open>name\<close> and its \<open>message\<close>.\<close>

record js_error =
  name :: string
  message :: string

text \<open>
  What an operation can throw: an instance of \<open>Error\<close>, or any other value (a string, a
  number, ...), of a type \<open>'v\<close> left open.
\<close>

datatype 'v thrown = ErrorInstance js_error | NonError 'v

text \<open>One invocation of the operation returns a result or throws.\<close>

datatype ('r, 'v) outcome = Returns 'r | Throws "'v thrown"

text \<open>
  The operation applied to the fixed argument list of one call of the wrapper: from the
  state of its environment to its outcome and the next state.
\<close>

type_synonym ('s, 'r, 'v) operation = "'s \<Rightarrow> ('r, 'v) outcome \<times> 's"

text \<open>
  How the promise returned by the wrapper settles. The rejection value is the content of
  the variable \<open>lastError\<close>, which is declared without an initial value (line 80):
  \<open>None\<close> is \<open>undefined\<close>.
\<close>

datatype 'r settled = Resolved 'r | Rejected "js_error option"

text \<open>
  The observable effects of one call of the wrapper: the state of the operation's
  environment, the value of \<open>attempt\<close> at each invocation of \<open>fn\<close> (in order), the
  delays passed to \<open>delay\<close> (in order), and the number of calls of \<open>Math.random()\<close>.
\<close>

record 's world =
  fn_state :: 's
  invoked :: "nat list"
  waited :: "real list"
  draws :: nat

subsection \<open>Operations\<close>

text \<open>The operator \<open>??\<close>: the left operand unless it is \<open>undefined\<close>.\<close>

definition nullish :: "'a option \<Rightarrow> 'a \<Rightarrow> 'a" where
  "nullish x d = (case x of None \<Rightarrow> d | Some v \<Rightarrow> v)"

text \<open>\<open>shouldRetryError\<close> (lines 26-31).\<close>

definition shouldRetryError :: "js_error \<Rightarrow> string list option \<Rightarrow> bool" where
  "shouldRetryError error allowedErrors =
     (case allowedErrors of
        None \<Rightarrow> True
      | Some xs \<Rightarrow> if length xs = 0 then True else name error \<in> set xs)"

text \<open>
  \<open>calculateDelay\<close> (lines 38-60). The last parameter is the value that
  \<open>Math.random()\<close> returns when it is called, which is only when \<open>jitter\<close> holds.
\<close>

definition calculateDelay ::
    "real \<Rightarrow> real \<Rightarrow> nat \<Rightarrow> real option \<Rightarrow> bool \<Rightarrow> real \<Rightarrow> real" where
  "calculateDelay baseInterval backoff' attempt maxInterval' jitter' random =
     (let delayMs = baseInterval * backoff' ^ attempt;
          delayMs = (if jitter' then (let jitterFactor = 0.8 + random * 0.4
                                      in delayMs * jitterFactor)
                     else delayMs);
          delayMs = (case maxInterval' of
                       Some m \<Rightarrow> min delayMs m
                     | None \<Rightarrow> delayMs)
      in delayMs)"

text \<open>
  Line 89: \<open>error instanceof Error ? error : new Error(String(error))\<close>. The conversion
  \<open>String\<close> of the values of type \<open>'v\<close> is a parameter.
\<close>

definition normalizeError :: "('v \<Rightarrow> string) \<Rightarrow> 'v thrown \<Rightarrow> js_error" where
  "normalizeError String error =
     (case error of
        ErrorInstance e \<Rightarrow> e
      | NonError v \<Rightarrow> \<lparr>name = ''Error'', message = String v\<rparr>)"

text \<open>
  The loop of lines 83-114, from the value \<open>attempt\<close> of the counter, with the current
  content \<open>lastError\<close> of that variable. \<open>rnd k\<close> is what the \<open>k\<close>-th call of
  \<open>Math.random()\<close> returns.
\<close>

function attempt_loop ::
    "('s, 'r, 'v) operation \<Rightarrow> ('v \<Rightarrow> string) \<Rightarrow> (nat \<Rightarrow> real) \<Rightarrow>
     string list option \<Rightarrow> real \<Rightarrow> real \<Rightarrow> int \<Rightarrow> real option \<Rightarrow> bool \<Rightarrow>
     nat \<Rightarrow> js_error option \<Rightarrow> 's world \<Rightarrow> 'r settled \<times> 's world" where
  "attempt_loop fn String rnd errs ivl bko maxA maxI jit attempt lastError w =
     (if int attempt < maxA then
        (case fn (fn_state w) of
           (Returns result, s) \<Rightarrow>
             (Resolved result, w\<lparr>fn_state := s, invoked := invoked w @ [attempt]\<rparr>)
         | (Throws error, s) \<Rightarrow>
             (let w1 = w\<lparr>fn_state := s, invoked := invoked w @ [attempt]\<rparr>;
                  lastError1 = normalizeError String error
              in if \<not> shouldRetryError lastError1 errs then (Rejected (Some lastError1), w1)
                 else if int attempt = maxA - 1 then (Rejected (Some lastError1), w1)
                 else
                   (let currentInterval =
                          calculateDelay ivl bko attempt maxI jit (rnd (draws w1));
                        w2 = w1\<lparr>waited := waited w1 @ [currentInterval],
                                draws := (if jit then Suc (draws w1) else draws w1)\<rparr>
                    in attempt_loop fn String rnd errs ivl bko maxA maxI jit
                         (Suc attempt) (Some lastError1) w2)))
      else (Rejected lastError, w))"
  by pat_completeness auto
termination
  by (relation "measure (\<lambda>(fn, String, rnd, errs, ivl, bko, maxA, maxI, jit, attempt, lastError, w).
        nat (maxA - int attempt))") auto

text \<open>
  The exported function (lines 67-116): the options with their defaults, then the loop
  from \<open>attempt = 0\<close> with \<open>lastError\<close> not yet assigned. The call starts in a world
  where nothing has been invoked or waited for.
\<close>

definition start :: "'s \<Rightarrow> 's world" where
  "start s = \<lparr>fn_state = s, invoked = [], waited = [], draws = 0\<rparr>"

definition retry ::
    "('s, 'r, 'v) operation \<Rightarrow> ('v \<Rightarrow> string) \<Rightarrow> (nat \<Rightarrow> real) \<Rightarrow> RetryOptions \<Rightarrow>
     's \<Rightarrow> 'r settled \<times> 's world" where
  "retry fn String rnd options s =
     attempt_loop fn String rnd
       (errors options)
       (nullish (intervals options) 1000)
       (nullish (backoff options) 2)
       (nullish (maxAttempts options) 3)
       (maxInterval options)
       (nullish (jitter options) False)
       0 None (start s)"

subsection \<open>Describing a run\<close>

text \<open>
  The following definitions are not part of the source; they name what the statements
  below talk about. \<open>state_after fn s j\<close> is the state of the operation's environment
  after \<open>j\<close> consecutive invocations from \<open>s\<close>, and \<open>outcome_at fn s j\<close> the outcome of
  the next invocation (the one made at \<open>attempt = j\<close> when the wrapper starts in \<open>s\<close>).
\<close>

definition state_after :: "('s, 'r, 'v) operation \<Rightarrow> 's \<Rightarrow> nat \<Rightarrow> 's" where
  "state_after fn s j = ((\<lambda>t. snd (fn t)) ^^ j) s"

definition outcome_at :: "('s, 'r, 'v) operation \<Rightarrow> 's \<Rightarrow> nat \<Rightarrow> ('r, 'v) outcome" where
  "outcome_at fn s j = fst (fn (state_after fn s j))"

text \<open>
  The invocation at \<open>attempt = j\<close> throws, and the classifier accepts the normalized
  error.
\<close>

definition fails_retryably ::
    "('s, 'r, 'v) operation \<Rightarrow> ('v \<Rightarrow> string) \<Rightarrow> string list option \<Rightarrow> 's \<Rightarrow> nat \<Rightarrow> bool" where
  "fails_retryably fn String errs s j =
     (case outcome_at fn s j of
        Returns r \<Rightarrow> False
      | Throws e \<Rightarrow> shouldRetryError (normalizeError String e) errs)"

text \<open>
  The world after \<open>m\<close> attempts from \<open>attempt = a\<close> that each failed and were each
  followed by a wait.
\<close>

definition after_failures ::
    "('s, 'r, 'v) operation \<Rightarrow> (nat \<Rightarrow> real) \<Rightarrow> real \<Rightarrow> real \<Rightarrow> real option \<Rightarrow> bool \<Rightarrow>
     nat \<Rightarrow> nat \<Rightarrow> 's world \<Rightarrow> 's world" where
  "after_failures fn rnd ivl bko maxI jit a m w =
     w\<lparr>fn_state := state_after fn (fn_state w) m,
       invoked := invoked w @ [a..<a + m],
       waited := waited w @
         map (\<lambda>i. calculateDelay ivl bko (a + i) maxI jit (rnd (draws w + (if jit then i else 0))))
           [0..<m],
       draws := draws w + (if jit then m else 0)\<rparr>"

text \<open>
  The world at the end of a call of the wrapper that made \<open>n\<close> invocations, with a wait
  between each two of them and none after the last.
\<close>

definition world_after ::
    "('s, 'r, 'v) operation \<Rightarrow> (nat \<Rightarrow> real) \<Rightarrow> RetryOptions \<Rightarrow> 's \<Rightarrow> nat \<Rightarrow> 's world" where
  "world_after fn rnd options s n =
     \<lparr>fn_state = state_after fn s n,
      invoked = [0..<n],
      waited = map (\<lambda>i. calculateDelay (nullish (intervals options) 1000)
                          (nullish (backoff options) 2) i (maxInterval options)
                          (nullish (jitter options) False)
                          (rnd (if nullish (jitter options) False then i else 0)))
                 [0..<n - 1],
      draws = (if nullish (jitter options) False then n - 1 else 0)\<rparr>"

subsection \<open>Example operations\<close>

text \<open>
  The options object \<open>{}\<close>, and the mock operations of \<open>src/lib/index.test.ts\<close>: each
  counts its invocations in \<open>attempts\<close>, which is the state of its environment.
\<close>

definition no_options :: RetryOptions where
  "no_options = \<lparr>errors = None, intervals = None, backoff = None, maxAttempts = None,
     maxInterval = None, jitter = None\<rparr>"

definition temporary_failure :: "nat \<Rightarrow> (nat, string, string) operation" where
  "temporary_failure k attempts =
     (if Suc attempts < k
      then Throws (ErrorInstance \<lparr>name = ''Error'', message = ''Temporary failure''\<rparr>)
      else Returns ''success'',
      Suc attempts)"

definition always_fails :: "(nat, string, string) operation" where
  "always_fails attempts =
     (Throws (ErrorInstance \<lparr>name = ''Error'', message = ''Always fails''\<rparr>), Suc attempts)"



section \<open>Properties\<close>

subsection \<open>One iteration of the loop\<close>

declare attempt_loop.simps [simp del]

lemma loop_exit:
  "\<not> int a < maxA \<Longrightarrow>
   attempt_loop fn String rnd errs ivl bko maxA maxI jit a le w = (Rejected le, w)"
  by (subst attempt_loop.simps) simp

lemma loop_returns:
  "int a < maxA \<Longrightarrow> fn (fn_state w) = (Returns r, s) \<Longrightarrow>
   attempt_loop fn String rnd errs ivl bko maxA maxI jit a le w =
     (Resolved r, w\<lparr>fn_state := s, invoked := invoked w @ [a]\<rparr>)"
  by (subst attempt_loop.simps) simp

lemma loop_not_retryable:
  "int a < maxA \<Longrightarrow> fn (fn_state w) = (Throws e, s) \<Longrightarrow>
   \<not> shouldRetryError (normalizeError String e) errs \<Longrightarrow>
   attempt_loop fn String rnd errs ivl bko maxA maxI jit a le w =
     (Rejected (Some (normalizeError String e)), w\<lparr>fn_state := s, invoked := invoked w @ [a]\<rparr>)"
  by (subst attempt_loop.simps) (simp add: Let_def)

lemma loop_last_attempt:
  "int a = maxA - 1 \<Longrightarrow> fn (fn_state w) = (Throws e, s) \<Longrightarrow>
   attempt_loop fn String rnd errs ivl bko maxA maxI jit a le w =
     (Rejected (Some (normalizeError String e)), w\<lparr>fn_state := s, invoked := invoked w @ [a]\<rparr>)"
  by (subst attempt_loop.simps) (simp add: Let_def)

lemma loop_continues:
  "int a < maxA - 1 \<Longrightarrow> fn (fn_state w) = (Throws e, s) \<Longrightarrow>
   shouldRetryError (normalizeError String e) errs \<Longrightarrow>
   attempt_loop fn String rnd errs ivl bko maxA maxI jit a le w =
     attempt_loop fn String rnd errs ivl bko maxA maxI jit (Suc a) (Some (normalizeError String e))
       (w\<lparr>fn_state := s, invoked := invoked w @ [a],
          waited := waited w @ [calculateDelay ivl bko a maxI jit (rnd (draws w))],
          draws := (if jit then Suc (draws w) else draws w)\<rparr>)"
  by (subst attempt_loop.simps) (simp add: Let_def)

lemma loop_lastError_irrelevant:
  "int a < maxA \<Longrightarrow>
   attempt_loop fn String rnd errs ivl bko maxA maxI jit a le w =
   attempt_loop fn String rnd errs ivl bko maxA maxI jit a le' w"
  by (simp add: attempt_loop.simps [of fn String rnd errs ivl bko maxA maxI jit a le w]
      attempt_loop.simps [of fn String rnd errs ivl bko maxA maxI jit a le' w])

subsection \<open>A run of retried failures\<close>

lemma after_failures_0: "after_failures fn rnd ivl bko maxI jit a 0 w = w"
  by (simp add: after_failures_def state_after_def)

lemma skip_failures:
  "\<forall>j<m. fails_retryably fn String errs (fn_state w) j \<Longrightarrow> int (a + m) < maxA \<Longrightarrow>
   attempt_loop fn String rnd errs ivl bko maxA maxI jit a le w =
   attempt_loop fn String rnd errs ivl bko maxA maxI jit (a + m) le'
     (after_failures fn rnd ivl bko maxI jit a m w)"
proof (induction m arbitrary: le')
  case 0
  then show ?case
    using loop_lastError_irrelevant [of a maxA] by (simp add: after_failures_0)
next
  case (Suc m)
  let ?w = "after_failures fn rnd ivl bko maxI jit a m w"
  from Suc.prems have "fails_retryably fn String errs (fn_state w) m" by simp
  then obtain e where e: "outcome_at fn (fn_state w) m = Throws e"
    and retr: "shouldRetryError (normalizeError String e) errs"
    by (auto simp: fails_retryably_def split: outcome.splits)
  have st: "fn_state ?w = state_after fn (fn_state w) m"
    by (simp add: after_failures_def)
  have call: "fn (fn_state ?w) = (Throws e, state_after fn (fn_state w) (Suc m))"
    using e by (simp add: st outcome_at_def state_after_def prod_eq_iff)
  have lt: "int (a + m) < maxA - 1" using Suc.prems by simp
  have "attempt_loop fn String rnd errs ivl bko maxA maxI jit a le w =
        attempt_loop fn String rnd errs ivl bko maxA maxI jit (a + m) None ?w"
    using Suc by simp
  also have "\<dots> = attempt_loop fn String rnd errs ivl bko maxA maxI jit (Suc (a + m))
       (Some (normalizeError String e))
       (?w\<lparr>fn_state := state_after fn (fn_state w) (Suc m), invoked := invoked ?w @ [a + m],
          waited := waited ?w @ [calculateDelay ivl bko (a + m) maxI jit (rnd (draws ?w))],
          draws := (if jit then Suc (draws ?w) else draws ?w)\<rparr>)"
    using lt call retr by (rule loop_continues)
  also have "(?w\<lparr>fn_state := state_after fn (fn_state w) (Suc m), invoked := invoked ?w @ [a + m],
          waited := waited ?w @ [calculateDelay ivl bko (a + m) maxI jit (rnd (draws ?w))],
          draws := (if jit then Suc (draws ?w) else draws ?w)\<rparr>) =
        after_failures fn rnd ivl bko maxI jit a (Suc m) w"
    by (simp add: after_failures_def)
  finally show ?case
    using loop_lastError_irrelevant [of "a + Suc m" maxA] Suc.prems(2) by simp
qed

lemma call_at:
  "fn (state_after fn s m) = (outcome_at fn s m, state_after fn s (Suc m))"
  by (simp add: outcome_at_def state_after_def)

lemma fn_state_after_failures:
  "fn_state (after_failures fn rnd ivl bko maxI jit a m w) = state_after fn (fn_state w) m"
  by (simp add: after_failures_def)


subsection \<open>The wrapper\<close>



lemma state_after_0: "state_after fn s 0 = s"
  by (simp add: state_after_def)

lemma state_after_Suc: "state_after fn s (Suc j) = snd (fn (state_after fn s j))"
  by (simp add: state_after_def)

lemma outcome_at_0: "outcome_at fn s 0 = fst (fn s)"
  by (simp add: outcome_at_def state_after_0)

lemma invoked_world_after: "invoked (world_after fn rnd options s n) = [0..<n]"
  by (simp add: world_after_def)

lemma length_waited_world_after: "length (waited (world_after fn rnd options s n)) = n - 1"
  by (simp add: world_after_def)


text \<open>
  If the first \<open>k - 1\<close> invocations fail retryably and \<open>k\<close> attempts are permitted, the
  wrapper reaches the \<open>k\<close>-th invocation.
\<close>

lemma retry_reaches:
  assumes "1 \<le> k" "int k \<le> nullish (maxAttempts options) 3"
      and "\<forall>j<k - 1. fails_retryably fn String (errors options) s j"
  shows "retry fn String rnd options s =
     attempt_loop fn String rnd (errors options) (nullish (intervals options) 1000)
       (nullish (backoff options) 2) (nullish (maxAttempts options) 3) (maxInterval options)
       (nullish (jitter options) False) (k - 1) None
       (after_failures fn rnd (nullish (intervals options) 1000) (nullish (backoff options) 2)
          (maxInterval options) (nullish (jitter options) False) 0 (k - 1) (start s))"
proof -
  have f: "\<forall>j<k - 1. fails_retryably fn String (errors options) (fn_state (start s)) j"
    using assms(3) by (simp add: start_def)
  have lt: "int (0 + (k - 1)) < nullish (maxAttempts options) 3"
    using assms(1,2) by linarith
  show ?thesis
    unfolding retry_def using skip_failures [OF f lt, of rnd] by simp
qed

lemma last_call:
  "fn (fn_state (after_failures fn rnd ivl bko maxI jit 0 (k - 1) (start s))) =
     (outcome_at fn s (k - 1), state_after fn s (Suc (k - 1)))"
  by (simp add: fn_state_after_failures call_at start_def)

lemma world_after_last:
  "1 \<le> k \<Longrightarrow>
   (after_failures fn rnd (nullish (intervals options) 1000) (nullish (backoff options) 2)
      (maxInterval options) (nullish (jitter options) False) 0 (k - 1) (start s))
     \<lparr>fn_state := state_after fn s (Suc (k - 1)),
       invoked := invoked (after_failures fn rnd (nullish (intervals options) 1000)
          (nullish (backoff options) 2) (maxInterval options) (nullish (jitter options) False)
          0 (k - 1) (start s)) @ [k - 1]\<rparr> =
   world_after fn rnd options s k"
  by (cases k) (simp_all add: after_failures_def world_after_def start_def)

lemma retry_resolves:
  assumes "1 \<le> k" "int k \<le> nullish (maxAttempts options) 3"
      and "\<forall>j<k - 1. fails_retryably fn String (errors options) s j"
      and "outcome_at fn s (k - 1) = Returns r"
  shows "retry fn String rnd options s = (Resolved r, world_after fn rnd options s k)"
proof -
  have lt: "int (k - 1) < nullish (maxAttempts options) 3" using assms(1,2) by linarith
  show ?thesis
    unfolding retry_reaches [OF assms(1-3)]
    using loop_returns [OF lt, of fn _ r] last_call [of fn _ _ _ _ _ k s] assms(4)
      world_after_last [OF assms(1), of fn rnd options s]
    by simp
qed

lemma retry_rejects_not_retryable:
  assumes "1 \<le> k" "int k \<le> nullish (maxAttempts options) 3"
      and "\<forall>j<k - 1. fails_retryably fn String (errors options) s j"
      and "outcome_at fn s (k - 1) = Throws e"
      and "\<not> shouldRetryError (normalizeError String e) (errors options)"
  shows "retry fn String rnd options s =
     (Rejected (Some (normalizeError String e)), world_after fn rnd options s k)"
proof -
  have lt: "int (k - 1) < nullish (maxAttempts options) 3" using assms(1,2) by linarith
  show ?thesis
    unfolding retry_reaches [OF assms(1-3)]
    using loop_not_retryable [OF lt, of fn _ e _ String "errors options"]
      last_call [of fn _ _ _ _ _ k s] assms(4,5)
      world_after_last [OF assms(1), of fn rnd options s]
    by simp
qed

lemma retry_rejects_exhausted:
  assumes "1 \<le> k" "int k = nullish (maxAttempts options) 3"
      and "\<forall>j<k - 1. fails_retryably fn String (errors options) s j"
      and "outcome_at fn s (k - 1) = Throws e"
  shows "retry fn String rnd options s =
     (Rejected (Some (normalizeError String e)), world_after fn rnd options s k)"
proof -
  have le: "int k \<le> nullish (maxAttempts options) 3" using assms(2) by simp
  have eq: "int (k - 1) = nullish (maxAttempts options) 3 - 1" using assms(1,2) by linarith
  show ?thesis
    unfolding retry_reaches [OF assms(1) le assms(3)]
    using loop_last_attempt [OF eq, of fn _ e _ String]
      last_call [of fn _ _ _ _ _ k s] assms(4)
      world_after_last [OF assms(1), of fn rnd options s]
    by simp
qed

subsection \<open>Facts about every call\<close>



lemma retry_first_failure_not_retryable:
  assumes "1 \<le> nullish (maxAttempts options) 3"
      and "fn s = (Throws e, s')"
      and "\<not> shouldRetryError (normalizeError String e) (errors options)"
  shows "retry fn String rnd options s =
     (Rejected (Some (normalizeError String e)),
      \<lparr>fn_state = s', invoked = [0], waited = [], draws = 0\<rparr>)"
proof -
  have k: "(1::nat) \<le> 1" by simp
  have m: "int 1 \<le> nullish (maxAttempts options) 3" using assms(1) by simp
  have f: "\<forall>j<1 - 1. fails_retryably fn String (errors options) s j" by simp
  have o: "outcome_at fn s (1 - 1) = Throws e" using assms(2) by (simp add: outcome_at_0)
  have w: "world_after fn rnd options s 1 = \<lparr>fn_state = s', invoked = [0], waited = [], draws = 0\<rparr>"
    using assms(2) by (simp add: world_after_def state_after_def)
  from retry_rejects_not_retryable [OF k m f o assms(3), of rnd] w show ?thesis by simp
qed


section \<open>The claims\<close>



text \<open>
  C2. For every \<open>k\<close> with \<open>1 \<le> k \<le> maxAttempts\<close>: if the first \<open>k - 1\<close> invocations of
  the operation fail retryably and the \<open>k\<close>-th returns \<open>r\<close>, the wrapper resolves with
  \<open>r\<close> after exactly \<open>k\<close> invocations and exactly \<open>k - 1\<close> waits, one between each two
  invocations and none after the last.
\<close>

theorem retry_succeeds_on_attempt:
  assumes "1 \<le> k" "int k \<le> nullish (maxAttempts options) 3"
      and "\<forall>j<k - 1. fails_retryably fn String (errors options) s j"
      and "outcome_at fn s (k - 1) = Returns r"
  shows "retry fn String rnd options s = (Resolved r, world_after fn rnd options s k) \<and>
     length (invoked (snd (retry fn String rnd options s))) = k \<and>
     length (waited (snd (retry fn String rnd options s))) = k - 1"
  using retry_resolves [OF assms, of rnd]
  by (simp add: invoked_world_after length_waited_world_after)

theorem retry_succeeds_on_attempt_witness:
  "(1::nat) \<le> 3 \<and> int 3 \<le> nullish (maxAttempts no_options) 3 \<and>
   fails_retryably (temporary_failure 3) id (errors no_options) 0 0 \<and>
   fails_retryably (temporary_failure 3) id (errors no_options) 0 1 \<and>
   outcome_at (temporary_failure 3) 0 (3 - 1) = Returns ''success'' \<and>
   retry (temporary_failure 3) id (\<lambda>k. 0) no_options 0 =
     (Resolved ''success'', \<lparr>fn_state = 3, invoked = [0, 1, 2], waited = [1000, 2000], draws = 0\<rparr>) \<and>
   length (invoked (snd (retry (temporary_failure 3) id (\<lambda>k. 0) no_options 0))) = 3 \<and>
   length (waited (snd (retry (temporary_failure 3) id (\<lambda>k. 0) no_options 0))) = 3 - 1"
proof -
  have f0: "fails_retryably (temporary_failure 3) id (errors no_options) 0 0"
    by code_simp
  have f1: "fails_retryably (temporary_failure 3) id (errors no_options) 0 1"
    by code_simp
  have o: "outcome_at (temporary_failure 3) 0 (3 - 1) = Returns ''success''"
    by code_simp
  have a: "\<forall>j<3 - 1. fails_retryably (temporary_failure 3) id (errors no_options) 0 j"
    using f0 f1 by (simp add: numeral_2_eq_2 All_less_Suc)
  have k: "(1::nat) \<le> 3" by simp
  have m: "int 3 \<le> nullish (maxAttempts no_options) 3"
    by (simp add: nullish_def no_options_def)
  have w: "world_after (temporary_failure 3) (\<lambda>k. 0) no_options 0 3 =
      \<lparr>fn_state = 3, invoked = [0, 1, 2], waited = [1000, 2000], draws = 0\<rparr>"
    by code_simp
  from retry_succeeds_on_attempt [OF k m a o, of "\<lambda>k. 0"] k m f0 f1 o w
  show ?thesis by simp
qed



text \<open>
  C4. The classifier returns true when the set of retryable kinds is absent or empty;
  otherwise it returns true exactly when the name of the error is a member of the set.
  Membership is equality of whole strings: a proper prefix of a listed name is not
  accepted. The classifier is a function of its two arguments alone.
\<close>

theorem shouldRetryError_policy:
  "shouldRetryError e None = True \<and>
   shouldRetryError e (Some []) = True \<and>
   shouldRetryError e (Some (k # ks)) = (name e \<in> set (k # ks)) \<and>
   shouldRetryError \<lparr>name = ''Network'', message = m\<rparr> (Some [''NetworkError'']) = False"
  by (simp add: shouldRetryError_def)

text \<open>
  C5. If the first invocation throws a value whose normalized error has a name that is
  not in the configured, non-empty set of retryable kinds, the wrapper rejects with that
  normalized error after exactly one invocation and without any wait, however many
  attempts are permitted (at least one is, so that the operation is invoked at all).
\<close>

theorem retry_stops_at_unlisted_error:
  assumes "1 \<le> nullish (maxAttempts options) 3"
      and "errors options = Some ks" "ks \<noteq> []"
      and "fn s = (Throws e, s')"
      and "name (normalizeError String e) \<notin> set ks"
  shows "retry fn String rnd options s =
     (Rejected (Some (normalizeError String e)),
      \<lparr>fn_state = s', invoked = [0], waited = [], draws = 0\<rparr>)"
proof -
  have c: "\<not> shouldRetryError (normalizeError String e) (errors options)"
    using assms(2,3,5) by (simp add: shouldRetryError_def)
  from assms(1) assms(4) c show ?thesis
    by (rule retry_first_failure_not_retryable)
qed

theorem retry_stops_at_unlisted_error_witness:
  "1 \<le> nullish (maxAttempts (no_options\<lparr>errors := Some [''CustomError'']\<rparr>)) 3 \<and>
   errors (no_options\<lparr>errors := Some [''CustomError'']\<rparr>) = Some [''CustomError''] \<and>
   [''CustomError''] \<noteq> [] \<and>
   always_fails 0 =
     (Throws (ErrorInstance \<lparr>name = ''Error'', message = ''Always fails''\<rparr>), 1) \<and>
   name (normalizeError id (ErrorInstance \<lparr>name = ''Error'', message = ''Always fails''\<rparr>))
     \<notin> set [''CustomError''] \<and>
   retry always_fails id (\<lambda>k. 0) (no_options\<lparr>errors := Some [''CustomError'']\<rparr>) 0 =
     (Rejected (Some \<lparr>name = ''Error'', message = ''Always fails''\<rparr>),
      \<lparr>fn_state = 1, invoked = [0], waited = [], draws = 0\<rparr>)"
proof -
  have m: "1 \<le> nullish (maxAttempts (no_options\<lparr>errors := Some [''CustomError'']\<rparr>)) 3"
    by (simp add: nullish_def no_options_def)
  have e: "errors (no_options\<lparr>errors := Some [''CustomError'']\<rparr>) = Some [''CustomError'']"
    by simp
  have n: "[''CustomError''] \<noteq> []" by simp
  have t: "always_fails 0 =
     (Throws (ErrorInstance \<lparr>name = ''Error'', message = ''Always fails''\<rparr>), 1)"
    by (simp add: always_fails_def)
  have u: "name (normalizeError id (ErrorInstance \<lparr>name = ''Error'', message = ''Always fails''\<rparr>))
     \<notin> set [''CustomError'']"
    by (simp add: normalizeError_def)
  from retry_stops_at_unlisted_error [where fn = always_fails and s = 0 and String = id
      and rnd = "\<lambda>k. 0", OF m e n t u] m e n t u
  show ?thesis by (simp add: normalizeError_def)
qed

text \<open>
  C6. If each of the \<open>maxAttempts\<close> invocations fails with a retryable error, the
  wrapper rejects with the normalized error of the last invocation alone, after exactly
  \<open>maxAttempts\<close> invocations and exactly \<open>maxAttempts - 1\<close> waits: there is no wait
  after the last permitted attempt.
\<close>

theorem retry_exhausted:
  assumes "1 \<le> nullish (maxAttempts options) 3"
      and "\<forall>j<nat (nullish (maxAttempts options) 3). fails_retryably fn String (errors options) s j"
      and "outcome_at fn s (nat (nullish (maxAttempts options) 3) - 1) = Throws e"
  shows "retry fn String rnd options s =
       (Rejected (Some (normalizeError String e)),
        world_after fn rnd options s (nat (nullish (maxAttempts options) 3))) \<and>
     length (invoked (snd (retry fn String rnd options s))) = nat (nullish (maxAttempts options) 3) \<and>
     length (waited (snd (retry fn String rnd options s))) =
       nat (nullish (maxAttempts options) 3) - 1"
proof -
  let ?k = "nat (nullish (maxAttempts options) 3)"
  have k: "1 \<le> ?k" using assms(1) by simp
  have m: "int ?k = nullish (maxAttempts options) 3" using assms(1) by simp
  have f: "\<forall>j<?k - 1. fails_retryably fn String (errors options) s j"
    using assms(2) by simp
  from retry_rejects_exhausted [OF k m f assms(3), of rnd]
  show ?thesis by (simp add: invoked_world_after length_waited_world_after)
qed

theorem retry_exhausted_witness:
  "1 \<le> nullish (maxAttempts (no_options\<lparr>maxAttempts := Some 2\<rparr>)) 3 \<and>
   fails_retryably always_fails id (errors (no_options\<lparr>maxAttempts := Some 2\<rparr>)) 0 0 \<and>
   fails_retryably always_fails id (errors (no_options\<lparr>maxAttempts := Some 2\<rparr>)) 0 1 \<and>
   outcome_at always_fails 0 (nat (nullish (maxAttempts (no_options\<lparr>maxAttempts := Some 2\<rparr>)) 3) - 1) =
     Throws (ErrorInstance \<lparr>name = ''Error'', message = ''Always fails''\<rparr>) \<and>
   retry always_fails id (\<lambda>k. 0) (no_options\<lparr>maxAttempts := Some 2\<rparr>) 0 =
     (Rejected (Some \<lparr>name = ''Error'', message = ''Always fails''\<rparr>),
      \<lparr>fn_state = 2, invoked = [0, 1], waited = [1000], draws = 0\<rparr>) \<and>
   length (invoked (snd (retry always_fails id (\<lambda>k. 0) (no_options\<lparr>maxAttempts := Some 2\<rparr>) 0))) = 2 \<and>
   length (waited (snd (retry always_fails id (\<lambda>k. 0) (no_options\<lparr>maxAttempts := Some 2\<rparr>) 0))) = 1"
proof -
  let ?o = "no_options\<lparr>maxAttempts := Some 2\<rparr>"
  have n: "nat (nullish (maxAttempts ?o) 3) = 2" by (simp add: nullish_def)
  have m: "1 \<le> nullish (maxAttempts ?o) 3" by (simp add: nullish_def)
  have f0: "fails_retryably always_fails id (errors ?o) 0 0" by code_simp
  have f1: "fails_retryably always_fails id (errors ?o) 0 1" by code_simp
  have f: "\<forall>j<nat (nullish (maxAttempts ?o) 3). fails_retryably always_fails id (errors ?o) 0 j"
    unfolding n using f0 f1 by (simp add: numeral_2_eq_2 All_less_Suc)
  have o: "outcome_at always_fails 0 (nat (nullish (maxAttempts ?o) 3) - 1) =
     Throws (ErrorInstance \<lparr>name = ''Error'', message = ''Always fails''\<rparr>)"
    unfolding n by code_simp
  have w: "world_after always_fails (\<lambda>k. 0) ?o 0 2 =
      \<lparr>fn_state = 2, invoked = [0, 1], waited = [1000], draws = 0\<rparr>"
    by code_simp
  from retry_exhausted [OF m f o, of "\<lambda>k. 0"] m f0 f1 o w
  show ?thesis by (simp add: nullish_def normalizeError_def)
qed







text \<open>
  C10. With \<open>maxAttempts \<le> 0\<close> the body of the loop is never executed: the operation
  is not invoked, nothing is waited for, and the wrapper rejects from the final
  \<open>throw\<close> with the content of \<open>lastError\<close>, which was never assigned
  (\<open>undefined\<close>), not with a normalized error.
\<close>

theorem retry_without_attempts:
  assumes "nullish (maxAttempts options) 3 \<le> 0"
  shows "retry fn String rnd options s = (Rejected None, start s) \<and>
         invoked (snd (retry fn String rnd options s)) = []"
proof -
  from assms have "\<not> int 0 < nullish (maxAttempts options) 3" by simp
  then have "retry fn String rnd options s = (Rejected None, start s)"
    unfolding retry_def by (rule loop_exit)
  then show ?thesis by (simp add: start_def)
qed

theorem retry_without_attempts_witness:
  "nullish (maxAttempts (no_options\<lparr>maxAttempts := Some 0\<rparr>)) 3 \<le> 0 \<and>
   retry always_fails id (\<lambda>k. 0) (no_options\<lparr>maxAttempts := Some 0\<rparr>) 0 =
     (Rejected None, \<lparr>fn_state = 0, invoked = [], waited = [], draws = 0\<rparr>)"
  using retry_without_attempts [of "no_options\<lparr>maxAttempts := Some 0\<rparr>" always_fails id "\<lambda>k. 0" 0]
  by (simp add: nullish_def start_def)

end
